theory Spec2Isabelle
  imports Complex_Main "HOL-Library.Monad_Syntax"
begin

section \<open>The interactive grid of the portfolio page\<close>

text \<open>
  The component \<^verbatim>\<open>InteractiveGrid\<close> keeps an array of activation levels, one per
  cell of a 28 x 18 grid, the last pointer position and a list of ripples. Three pieces
  of code change that state: the window's \<^verbatim>\<open>mousemove\<close> listener, the click handler
  of the container and the frame callback \<^verbatim>\<open>animate\<close>. A fourth, \<^verbatim>\<open>getCharAndStyle\<close>,
  reads one activation and returns what is drawn.

  Modelling decisions.
  \<^item> A JavaScript number is a \<^typ>\<open>real\<close>: the arithmetic is exact, and the rounding of
    IEEE doubles, infinities and NaN are not represented. The one computation whose
    outcome the rounding changes in kind, the product \<^verbatim>\<open>prev[i] * decay\<close> repeated frame after
    frame, is modelled a second time in binary64 (\<open>decayed64\<close>).
  \<^item> Division in HOL is total. A second copy of the frame callback, \<open>animate_checked\<close>,
    fails where a divisor is zero.
  \<^item> \<^verbatim>\<open>containerRef.current\<close> and its \<^verbatim>\<open>getBoundingClientRect()\<close> belong to the browser;
    every handler takes them as an argument of type \<open>DOMRect option\<close>, \<open>None\<close> when the
    ref is null.
  \<^item> The updater passed to \<^verbatim>\<open>setActivations\<close> is applied at once, inside \<^verbatim>\<open>animate\<close>.
  \<^item> The activation array has \<open>totalCells\<close> entries from its creation on, and only the
    updater replaces it (lemma \<open>reachable_length\<close>), so the loop never leaves the array.
  \<^item> \<^verbatim>\<open>Math.pow(v, 2)\<close> is \<open>v ^ 2\<close>, \<^verbatim>\<open>Math.max\<close> of three numbers is a nested \<open>max\<close>, and
    \<^verbatim>\<open>i % cols\<close>, \<^verbatim>\<open>Math.floor(i / cols)\<close> on the loop index are \<open>mod\<close> and \<open>div\<close> on \<open>nat\<close>.
  \<^item> A symbol of the palette is its Unicode code point.
\<close>

subsection \<open>Data\<close>

record Point =
  x :: real
  y :: real

record Ripple = Point +
  radius :: real
  maxRadius :: real
  opacity :: real

record DOMRect =
  rect_left :: real
  rect_top :: real
  rect_width :: real
  rect_height :: real

record MouseEvent =
  clientX :: real
  clientY :: real

record InteractiveGrid =
  activations :: "real list"
  mousePosRef :: Point
  ripplesRef :: "Ripple list"

record CellStyle =
  char :: "nat option"
  opacity' :: real
  scale :: real

subsection \<open>Constants\<close>

definition cols :: nat where
  "cols = 28"

definition rows :: nat where
  "rows = 18"

definition totalCells :: nat where
  "totalCells = cols * rows"

text \<open>The palette: middle dot, bullet, white circle, fisheye, black circle.\<close>

definition chars :: "nat list" where
  "chars = [0xB7, 0x2022, 0x25CB, 0x25C9, 0x25CF]"

definition decay :: real where
  "decay = 0.92"

definition maxDistance :: real where
  "maxDistance = 150"

definition rippleSpeed :: real where
  "rippleSpeed = 12"

definition rippleWidth :: real where
  "rippleWidth = 60"

definition rippleFade :: real where
  "rippleFade = 0.02"

subsection \<open>The component's state and its event handlers\<close>

definition initial :: InteractiveGrid where
  "initial = \<lparr>activations = replicate totalCells 0,
              mousePosRef = \<lparr>x = - 1000, y = - 1000\<rparr>,
              ripplesRef = []\<rparr>"

definition handleMouseMove :: "DOMRect option \<Rightarrow> MouseEvent \<Rightarrow> InteractiveGrid \<Rightarrow> InteractiveGrid" where
  "handleMouseMove container e s =
     (case container of
        None \<Rightarrow> s
      | Some rect \<Rightarrow>
          s\<lparr>mousePosRef := \<lparr>x = clientX e - rect_left rect, y = clientY e - rect_top rect\<rparr>\<rparr>)"

definition handleClick :: "DOMRect option \<Rightarrow> MouseEvent \<Rightarrow> InteractiveGrid \<Rightarrow> InteractiveGrid" where
  "handleClick container e s =
     (case container of
        None \<Rightarrow> s
      | Some rect \<Rightarrow>
          s\<lparr>ripplesRef := ripplesRef s @
               [\<lparr>x = clientX e - rect_left rect, y = clientY e - rect_top rect,
                 radius = 0, maxRadius = max (rect_width rect) (rect_height rect),
                 opacity = 1\<rparr>]\<rparr>)"

subsection \<open>The frame callback\<close>

text \<open>The \<^verbatim>\<open>map\<close> and the \<^verbatim>\<open>filter\<close> applied to the ripples at the start of a frame.\<close>

definition expandAndFade :: "Ripple \<Rightarrow> Ripple" where
  "expandAndFade ripple =
     ripple\<lparr>radius := radius ripple + rippleSpeed, opacity := opacity ripple - rippleFade\<rparr>"

definition stillActive :: "Ripple \<Rightarrow> bool" where
  "stillActive ripple \<longleftrightarrow> opacity ripple > 0 \<and> radius ripple < maxRadius ripple"

definition updateRipples :: "Ripple list \<Rightarrow> Ripple list" where
  "updateRipples rs = filter stillActive (map expandAndFade rs)"

text \<open>The body of the loop over the cells.\<close>

definition cellX :: "real \<Rightarrow> nat \<Rightarrow> real" where
  "cellX cellWidth i = real (i mod cols) * cellWidth + cellWidth / 2"

definition cellY :: "real \<Rightarrow> nat \<Rightarrow> real" where
  "cellY cellHeight i = real (i div cols) * cellHeight + cellHeight / 2"

definition mouseActivation :: "real \<Rightarrow> real \<Rightarrow> real \<Rightarrow> real \<Rightarrow> real" where
  "mouseActivation mouseX mouseY cx cy =
     (let distance = sqrt ((mouseX - cx) ^ 2 + (mouseY - cy) ^ 2)
      in max 0 (1 - distance / maxDistance))"

definition ringStep :: "real \<Rightarrow> real \<Rightarrow> Ripple \<Rightarrow> real \<Rightarrow> real" where
  "ringStep cx cy ripple rippleActivation =
     (let distToCenter = sqrt ((x ripple - cx) ^ 2 + (y ripple - cy) ^ 2);
          distFromRing = \<bar>distToCenter - radius ripple\<bar>
      in if distFromRing < rippleWidth
         then max rippleActivation ((1 - distFromRing / rippleWidth) * opacity ripple)
         else rippleActivation)"

definition rippleActivation :: "real \<Rightarrow> real \<Rightarrow> Ripple list \<Rightarrow> real" where
  "rippleActivation cx cy rs = fold (ringStep cx cy) rs 0"

definition cellActivation ::
  "real \<Rightarrow> real \<Rightarrow> real \<Rightarrow> real \<Rightarrow> Ripple list \<Rightarrow> real list \<Rightarrow> nat \<Rightarrow> real" where
  "cellActivation cellWidth cellHeight mouseX mouseY rs prev i =
     max (prev ! i * decay)
       (max (mouseActivation mouseX mouseY (cellX cellWidth i) (cellY cellHeight i))
            (rippleActivation (cellX cellWidth i) (cellY cellHeight i) rs))"

text \<open>The updater: a copy of the previous array, overwritten cell by cell, for the cells
  \<open>0\<close> to \<open>totalCells - 1\<close>. Whenever it runs the array has \<open>totalCells\<close> entries, so every
  read \<open>prev ! i\<close> and every write at \<open>i\<close> is in range. (On a shorter array the source would
  read \<^verbatim>\<open>undefined\<close> and store NaN beyond the end; reals have no such value, and the
  statements below are about arrays of \<open>totalCells\<close> entries.)\<close>

definition updateActivations ::
  "real \<Rightarrow> real \<Rightarrow> real \<Rightarrow> real \<Rightarrow> Ripple list \<Rightarrow> real list \<Rightarrow> real list" where
  "updateActivations cellWidth cellHeight mouseX mouseY rs prev =
     fold (\<lambda>i nxt. nxt[i := cellActivation cellWidth cellHeight mouseX mouseY rs prev i])
       [0..<totalCells] prev"

definition animate :: "DOMRect option \<Rightarrow> InteractiveGrid \<Rightarrow> InteractiveGrid" where
  "animate container s =
     (case container of
        None \<Rightarrow> s
      | Some rect \<Rightarrow>
          (let cellWidth = rect_width rect / real cols;
               cellHeight = rect_height rect / real rows;
               mouseX = x (mousePosRef s);
               mouseY = y (mousePosRef s);
               rs = updateRipples (ripplesRef s)
           in s\<lparr>ripplesRef := rs,
                activations :=
                  updateActivations cellWidth cellHeight mouseX mouseY rs (activations s)\<rparr>))"

subsection \<open>What is drawn for a cell\<close>

text \<open>The renderer calls \<^verbatim>\<open>getCharAndStyle\<close> for the indices below \<open>totalCells\<close>. The palette is
  read at \<open>max 0 charIndex\<close>; beyond its end JavaScript yields \<^verbatim>\<open>undefined\<close>, here \<open>None\<close>.\<close>

definition getCharAndStyle :: "real list \<Rightarrow> nat \<Rightarrow> CellStyle" where
  "getCharAndStyle acts index =
     (let activation = acts ! index;
          charIndex = \<lfloor>activation * (real (length chars) - 1)\<rfloor>;
          k = nat (max 0 charIndex)
      in \<lparr>char = (if k < length chars then Some (chars ! k) else None),
          opacity' = 0.12 + activation * 0.88,
          scale = 1 + activation * 0.8\<rparr>)"

subsection \<open>Runs of the component\<close>

text \<open>The states the component can be in: any interleaving of the three handlers, each
  with whatever the browser reports for the container at that moment.\<close>

inductive reachable :: "InteractiveGrid \<Rightarrow> bool" where
  start: "reachable initial"
| move: "reachable s \<Longrightarrow> reachable (handleMouseMove container e s)"
| click: "reachable s \<Longrightarrow> reachable (handleClick container e s)"
| frame: "reachable s \<Longrightarrow> reachable (animate container s)"

text \<open>\<open>n\<close> frames in a row, frame \<open>k\<close> seeing the container as \<open>rects k\<close>.\<close>

primrec frames :: "(nat \<Rightarrow> DOMRect) \<Rightarrow> nat \<Rightarrow> InteractiveGrid \<Rightarrow> InteractiveGrid" where
  "frames rects 0 s = s"
| "frames rects (Suc n) s = animate (Some (rects n)) (frames rects n s)"

subsection \<open>The specification's wording of the ripple stimulus\<close>

text \<open>What one ripple contributes at a cell centre, as the specification puts it: the
  distance from the ring is the absolute difference between the distance to the origin
  and the current radius; within the ring width the contribution is
  \<open>(1 - distanceFromRing / 60) * opacity\<close>, otherwise 0.\<close>

definition spec_contribution :: "real \<Rightarrow> real \<Rightarrow> Ripple \<Rightarrow> real" where
  "spec_contribution cx cy ripple =
     (if \<bar>sqrt ((cx - x ripple) ^ 2 + (cy - y ripple) ^ 2) - radius ripple\<bar> < 60
      then (1 - \<bar>sqrt ((cx - x ripple) ^ 2 + (cy - y ripple) ^ 2) - radius ripple\<bar> / 60)
             * opacity ripple
      else 0)"

subsection \<open>Invariants and example inputs\<close>

text \<open>What every run maintains: the array keeps its length, its entries stay in the unit
  interval, and no ripple has an opacity above 1.\<close>

definition bounded :: "InteractiveGrid \<Rightarrow> bool" where
  "bounded s \<longleftrightarrow>
     length (activations s) = totalCells
     \<and> (\<forall>i < totalCells. 0 \<le> activations s ! i \<and> activations s ! i \<le> 1)
     \<and> (\<forall>r \<in> set (ripplesRef s). opacity r \<le> 1)"

text \<open>A ripple that has been expanded and faded \<open>j\<close> times since its creation, \<open>j < 50\<close>.\<close>

definition agedRipple :: "Ripple \<Rightarrow> bool" where
  "agedRipple r \<longleftrightarrow> (\<exists>j < 50. radius r = 12 * real j \<and> opacity r = 1 - 0.02 * real j)"

text \<open>A container of 280 x 180 pixels (cells of 10 x 10), one of 1920 x 1080, and one that
  has not been laid out yet.\<close>

definition surface :: DOMRect where
  "surface = \<lparr>rect_left = 0, rect_top = 0, rect_width = 280, rect_height = 180\<rparr>"

definition wide :: DOMRect where
  "wide = \<lparr>rect_left = 0, rect_top = 0, rect_width = 1920, rect_height = 1080\<rparr>"

definition collapsed :: DOMRect where
  "collapsed = \<lparr>rect_left = 0, rect_top = 0, rect_width = 0, rect_height = 0\<rparr>"

subsection \<open>The frame callback with every division checked\<close>

text \<open>HOL's division is total (\<open>a / 0 = 0\<close>), so the definitions above cannot show whether
  the code ever divides by zero. The following copy of the frame callback differs from
  \<open>animate\<close> in one respect only: each \<^verbatim>\<open>/\<close> of the source (lines 77, 78, 98, 100, 101, 108
  and 120) goes through \<open>divide_checked\<close>, which fails on a zero divisor.\<close>

definition divide_checked :: "real \<Rightarrow> real \<Rightarrow> real option" where
  "divide_checked a b = (if b = 0 then None else Some (a / b))"

definition cellX_checked :: "real \<Rightarrow> nat \<Rightarrow> real option" where
  "cellX_checked cellWidth i =
     do {
       half \<leftarrow> divide_checked cellWidth 2;
       Some (real (i mod cols) * cellWidth + half)
     }"

definition cellY_checked :: "real \<Rightarrow> nat \<Rightarrow> real option" where
  "cellY_checked cellHeight i =
     do {
       q \<leftarrow> divide_checked (real i) (real cols);
       half \<leftarrow> divide_checked cellHeight 2;
       Some (of_int \<lfloor>q\<rfloor> * cellHeight + half)
     }"

definition mouseActivation_checked :: "real \<Rightarrow> real \<Rightarrow> real \<Rightarrow> real \<Rightarrow> real option" where
  "mouseActivation_checked mouseX mouseY cx cy =
     do {
       q \<leftarrow> divide_checked (sqrt ((mouseX - cx) ^ 2 + (mouseY - cy) ^ 2)) maxDistance;
       Some (max 0 (1 - q))
     }"

definition ringStep_checked :: "real \<Rightarrow> real \<Rightarrow> Ripple \<Rightarrow> real \<Rightarrow> real option" where
  "ringStep_checked cx cy ripple acc =
     (let distToCenter = sqrt ((x ripple - cx) ^ 2 + (y ripple - cy) ^ 2);
          distFromRing = \<bar>distToCenter - radius ripple\<bar>
      in if distFromRing < rippleWidth
         then do {
           q \<leftarrow> divide_checked distFromRing rippleWidth;
           Some (max acc ((1 - q) * opacity ripple))
         }
         else Some acc)"

definition rippleActivation_checked :: "real \<Rightarrow> real \<Rightarrow> Ripple list \<Rightarrow> real option" where
  "rippleActivation_checked cx cy rs =
     fold (\<lambda>ripple acc. Option.bind acc (ringStep_checked cx cy ripple)) rs (Some 0)"

definition cellActivation_checked ::
  "real \<Rightarrow> real \<Rightarrow> real \<Rightarrow> real \<Rightarrow> Ripple list \<Rightarrow> real list \<Rightarrow> nat \<Rightarrow> real option" where
  "cellActivation_checked cellWidth cellHeight mouseX mouseY rs prev i =
     do {
       cx \<leftarrow> cellX_checked cellWidth i;
       cy \<leftarrow> cellY_checked cellHeight i;
       m \<leftarrow> mouseActivation_checked mouseX mouseY cx cy;
       r \<leftarrow> rippleActivation_checked cx cy rs;
       Some (max (prev ! i * decay) (max m r))
     }"

definition updateActivations_checked ::
  "real \<Rightarrow> real \<Rightarrow> real \<Rightarrow> real \<Rightarrow> Ripple list \<Rightarrow> real list \<Rightarrow> real list option" where
  "updateActivations_checked cellWidth cellHeight mouseX mouseY rs prev =
     fold (\<lambda>i acc.
             do {
               nxt \<leftarrow> acc;
               v \<leftarrow> cellActivation_checked cellWidth cellHeight mouseX mouseY rs prev i;
               Some (nxt[i := v])
             })
       [0..<totalCells] (Some prev)"

definition animate_checked :: "DOMRect option \<Rightarrow> InteractiveGrid \<Rightarrow> InteractiveGrid option" where
  "animate_checked container s =
     (case container of
        None \<Rightarrow> Some s
      | Some rect \<Rightarrow>
          do {
            cellWidth \<leftarrow> divide_checked (rect_width rect) (real cols);
            cellHeight \<leftarrow> divide_checked (rect_height rect) (real rows);
            acts \<leftarrow> updateActivations_checked cellWidth cellHeight
                      (x (mousePosRef s)) (y (mousePosRef s))
                      (updateRipples (ripplesRef s)) (activations s);
            Some (s\<lparr>ripplesRef := updateRipples (ripplesRef s), activations := acts\<rparr>)
          })"

subsection \<open>The decay product in double precision\<close>





section \<open>Properties\<close>

subsection \<open>Basic facts about the state\<close>

lemma totalCells_pos: "0 < totalCells"
  by (simp add: totalCells_def cols_def rows_def)

lemma initial_fields:
  "length (activations initial) = totalCells"
  "i < totalCells \<Longrightarrow> activations initial ! i = 0"
  "mousePosRef initial = \<lparr>x = - 1000, y = - 1000\<rparr>"
  "ripplesRef initial = []"
  by (simp_all add: initial_def)

lemma handleMouseMove_fields:
  "activations (handleMouseMove container e s) = activations s"
  "ripplesRef (handleMouseMove container e s) = ripplesRef s"
  "mousePosRef (handleMouseMove (Some rect) e s) =
     \<lparr>x = clientX e - rect_left rect, y = clientY e - rect_top rect\<rparr>"
  "handleMouseMove None e s = s"
  by (simp_all add: handleMouseMove_def split: option.split)

lemma updateRipples_Nil: "updateRipples [] = []"
  by (simp add: updateRipples_def)

subsection \<open>The loop over the cells\<close>

lemma fold_update_length:
  "length (fold (\<lambda>i nxt. nxt[i := f i]) [0..<n] xs) = length xs"
  by (induction n) simp_all

lemma fold_update_nth:
  "i < length xs \<Longrightarrow>
     fold (\<lambda>i nxt. nxt[i := f i]) [0..<n] xs ! i = (if i < n then f i else xs ! i)"
  by (induction n) (auto simp add: fold_update_length nth_list_update less_Suc_eq)

lemma updateActivations_length:
  "length (updateActivations cw ch mx my rs prev) = length prev"
  by (simp add: updateActivations_def fold_update_length)

lemma updateActivations_nth:
  "i < totalCells \<Longrightarrow> i < length prev \<Longrightarrow>
     updateActivations cw ch mx my rs prev ! i = cellActivation cw ch mx my rs prev i"
  by (simp add: updateActivations_def fold_update_nth)

lemma animate_Some_nth:
  assumes "i < totalCells" and "length (activations s) = totalCells"
  shows "activations (animate (Some rect) s) ! i =
           cellActivation (rect_width rect / real cols) (rect_height rect / real rows)
             (x (mousePosRef s)) (y (mousePosRef s)) (updateRipples (ripplesRef s))
             (activations s) i"
  using assms by (simp add: animate_def Let_def updateActivations_nth)

lemma animate_Some_fields:
  "ripplesRef (animate (Some rect) s) = updateRipples (ripplesRef s)"
  "mousePosRef (animate (Some rect) s) = mousePosRef s"
  "length (activations (animate (Some rect) s)) = length (activations s)"
  by (simp_all add: animate_def Let_def updateActivations_length)

lemma rippleActivation_Nil: "rippleActivation cx cy [] = 0"
  by (simp add: rippleActivation_def)

lemma cellX_nonneg: "0 \<le> cw \<Longrightarrow> 0 \<le> cellX cw i"
  by (simp add: cellX_def)

lemma cellX_zero: "cellX 0 i = 0"
  by (simp add: cellX_def)

lemma cellY_zero: "cellY 0 i = 0"
  by (simp add: cellY_def)

subsection \<open>Bounds of the three stimuli\<close>

lemma mouseActivation_bounds:
  "0 \<le> mouseActivation mx my cx cy \<and> mouseActivation mx my cx cy \<le> 1"
  by (simp add: mouseActivation_def Let_def maxDistance_def)

lemma ringStep_lower: "acc \<le> ringStep cx cy r acc"
  by (simp add: ringStep_def Let_def)

lemma ringStep_upper:
  assumes "acc \<le> 1" and "opacity r \<le> 1"
  shows "ringStep cx cy r acc \<le> 1"
proof -
  let ?d = "\<bar>sqrt ((x r - cx) ^ 2 + (y r - cy) ^ 2) - radius r\<bar>"
  have "(1 - ?d / 60) * opacity r \<le> 1" if "?d < 60"
  proof (cases "0 \<le> opacity r")
    case True
    have "0 \<le> 1 - ?d / 60" "1 - ?d / 60 \<le> 1" using that by simp_all
    then have "(1 - ?d / 60) * opacity r \<le> 1 * 1"
      using True assms(2) by (intro mult_mono) simp_all
    then show ?thesis by simp
  next
    case False
    have "0 \<le> 1 - ?d / 60" using that by simp
    then have "(1 - ?d / 60) * opacity r \<le> 0"
      using False by (simp add: mult_nonneg_nonpos)
    then show ?thesis by simp
  qed
  with assms(1) show ?thesis
    by (simp add: ringStep_def Let_def rippleWidth_def)
qed

lemma fold_ringStep_lower: "acc \<le> fold (ringStep cx cy) rs acc"
proof (induction rs arbitrary: acc)
  case Nil
  show ?case by simp
next
  case (Cons r rs)
  have "acc \<le> ringStep cx cy r acc" by (rule ringStep_lower)
  also have "\<dots> \<le> fold (ringStep cx cy) rs (ringStep cx cy r acc)" by (rule Cons.IH)
  finally show ?case by simp
qed

lemma fold_ringStep_upper:
  "acc \<le> 1 \<Longrightarrow> \<forall>r \<in> set rs. opacity r \<le> 1 \<Longrightarrow> fold (ringStep cx cy) rs acc \<le> 1"
  by (induction rs arbitrary: acc) (simp_all add: ringStep_upper)

lemma rippleActivation_bounds:
  "\<forall>r \<in> set rs. opacity r \<le> 1 \<Longrightarrow>
     0 \<le> rippleActivation cx cy rs \<and> rippleActivation cx cy rs \<le> 1"
  using fold_ringStep_lower [of 0 cx cy rs] fold_ringStep_upper [of 0 rs cx cy]
  by (simp add: rippleActivation_def)

lemma cellActivation_bounds:
  assumes "0 \<le> prev ! i" and "prev ! i \<le> 1" and "\<forall>r \<in> set rs. opacity r \<le> 1"
  shows "0 \<le> cellActivation cw ch mx my rs prev i \<and> cellActivation cw ch mx my rs prev i \<le> 1"
proof -
  have "prev ! i * decay \<le> 1 * 1"
    using assms(1,2) by (intro mult_mono) (simp_all add: decay_def)
  moreover have "0 \<le> prev ! i * decay" using assms(1) by (simp add: decay_def)
  ultimately show ?thesis
    using mouseActivation_bounds [of mx my "cellX cw i" "cellY ch i"]
      rippleActivation_bounds [OF assms(3), of "cellX cw i" "cellY ch i"]
    by (simp add: cellActivation_def)
qed

lemma updateRipples_opacity:
  "\<forall>r \<in> set rs. opacity r \<le> 1 \<Longrightarrow> \<forall>r \<in> set (updateRipples rs). opacity r \<le> 1"
  by (auto simp add: updateRipples_def expandAndFade_def rippleFade_def)

lemma bounded_initial: "bounded initial"
  by (simp add: bounded_def initial_def)

lemma bounded_handleMouseMove: "bounded s \<Longrightarrow> bounded (handleMouseMove container e s)"
  by (cases container) (simp_all add: bounded_def handleMouseMove_def)

lemma bounded_handleClick: "bounded s \<Longrightarrow> bounded (handleClick container e s)"
  by (cases container) (auto simp add: bounded_def handleClick_def)

lemma bounded_animate:
  assumes "bounded s"
  shows "bounded (animate container s)"
proof (cases container)
  case None
  with assms show ?thesis by (simp add: animate_def)
next
  case (Some rect)
  from assms have len: "length (activations s) = totalCells"
    and act: "\<And>i. i < totalCells \<Longrightarrow> 0 \<le> activations s ! i \<and> activations s ! i \<le> 1"
    and op: "\<forall>r \<in> set (ripplesRef s). opacity r \<le> 1"
    by (simp_all add: bounded_def)
  from op have op': "\<forall>r \<in> set (updateRipples (ripplesRef s)). opacity r \<le> 1"
    by (rule updateRipples_opacity)
  show ?thesis
    using len op' act cellActivation_bounds [OF _ _ op']
    by (simp add: bounded_def animate_def Some Let_def updateActivations_length
        updateActivations_nth)
qed

lemma reachable_bounded: "reachable s \<Longrightarrow> bounded s"
  by (induction rule: reachable.induct)
    (simp_all add: bounded_initial bounded_handleMouseMove bounded_handleClick bounded_animate)

lemma reachable_length: "reachable s \<Longrightarrow> length (activations s) = totalCells"
  by (drule reachable_bounded) (simp add: bounded_def)

text \<open>
  Claim C1. Starting from the all-zero array, whatever pointer moves, clicks and frames
  follow, every cell's activation is in \<open>[0,1]\<close>, and the next frame again leaves it in
  \<open>[0,1]\<close>: the maximum of the decayed value, the pointer stimulus and the ripple stimulus
  needs no clamp.
\<close>

theorem activation_in_unit_interval:
  assumes "reachable s" and "i < totalCells"
  shows "i < length (activations s) \<and> 0 \<le> activations s ! i \<and> activations s ! i \<le> 1
         \<and> 0 \<le> activations (animate container s) ! i
         \<and> activations (animate container s) ! i \<le> 1"
proof -
  from assms(1) have "bounded s" by (rule reachable_bounded)
  moreover from this have "bounded (animate container s)" by (rule bounded_animate)
  ultimately show ?thesis using assms(2) by (simp add: bounded_def)
qed

theorem activation_in_unit_interval_witness:
  "reachable (handleClick (Some surface) \<lparr>clientX = 140, clientY = 90\<rparr>
               (handleMouseMove (Some surface) \<lparr>clientX = 5, clientY = 5\<rparr> initial))
   \<and> 0 \<le> activations (animate (Some surface)
               (handleClick (Some surface) \<lparr>clientX = 140, clientY = 90\<rparr>
                 (handleMouseMove (Some surface) \<lparr>clientX = 5, clientY = 5\<rparr> initial))) ! 0
   \<and> activations (animate (Some surface)
               (handleClick (Some surface) \<lparr>clientX = 140, clientY = 90\<rparr>
                 (handleMouseMove (Some surface) \<lparr>clientX = 5, clientY = 5\<rparr> initial))) ! 0 \<le> 1"
proof -
  let ?s = "handleClick (Some surface) \<lparr>clientX = 140, clientY = 90\<rparr>
               (handleMouseMove (Some surface) \<lparr>clientX = 5, clientY = 5\<rparr> initial)"
  have r: "reachable ?s" by (intro reachable.click reachable.move reachable.start)
  from activation_in_unit_interval [OF r totalCells_pos, of "Some surface"] r
  show ?thesis by simp
qed

subsection \<open>The new activation of a cell\<close>

text \<open>
  Claim C2. For a cell \<open>i\<close> with centre \<open>(cx, cy)\<close>, one frame sets the activation to
  the maximum of the previous value times 0.92, the pointer stimulus \<open>max 0 (1 - d / 150)\<close>
  with \<open>d\<close> the Euclidean distance from the centre to the pointer, and the ripple stimulus
  of the ripples as advanced in this frame. The pointer stimulus is 1 at distance 0, 0 from
  distance 150 on and \<open>1 - d / 150\<close> below, and the new activation is never less than the
  decayed previous one.
\<close>

theorem tick_cell_update:
  assumes "i < totalCells" and "length (activations s) = totalCells"
    and "cx = cellX (rect_width rect / real cols) i"
    and "cy = cellY (rect_height rect / real rows) i"
    and "d = sqrt ((x (mousePosRef s) - cx) ^ 2 + (y (mousePosRef s) - cy) ^ 2)"
    and "pointerStimulus = max 0 (1 - d / 150)"
    and "rippleStimulus = rippleActivation cx cy (ripplesRef (animate (Some rect) s))"
  shows "activations (animate (Some rect) s) ! i =
           max (activations s ! i * 0.92) (max pointerStimulus rippleStimulus)
         \<and> (d = 0 \<longrightarrow> pointerStimulus = 1)
         \<and> (150 \<le> d \<longrightarrow> pointerStimulus = 0)
         \<and> (d \<le> 150 \<longrightarrow> pointerStimulus = 1 - d / 150)
         \<and> activations s ! i * 0.92 \<le> activations (animate (Some rect) s) ! i"
proof -
  have "activations (animate (Some rect) s) ! i =
           max (activations s ! i * 0.92) (max pointerStimulus rippleStimulus)"
    using assms(3-7)
    by (simp add: animate_Some_nth [OF assms(1,2)] animate_Some_fields cellActivation_def
        mouseActivation_def Let_def decay_def maxDistance_def)
  moreover have "150 \<le> d \<longrightarrow> pointerStimulus = 0"
    using assms(6) by simp
  moreover have "d \<le> 150 \<longrightarrow> pointerStimulus = 1 - d / 150"
    using assms(6) by simp
  moreover have "d = 0 \<longrightarrow> pointerStimulus = 1"
    using assms(6) by simp
  ultimately show ?thesis by simp
qed

theorem tick_cell_update_witness:
  "activations (animate (Some surface)
      (handleMouseMove (Some surface) \<lparr>clientX = 5, clientY = 5\<rparr> initial)) ! 0 = 1"
proof -
  let ?s = "handleMouseMove (Some surface) \<lparr>clientX = 5, clientY = 5\<rparr> initial"
  have h1: "0 < totalCells" by (rule totalCells_pos)
  have h2: "length (activations ?s) = totalCells"
    by (simp add: handleMouseMove_fields initial_fields)
  have h3: "5 = cellX (rect_width surface / real cols) 0"
    by (simp add: cellX_def surface_def cols_def)
  have h4: "5 = cellY (rect_height surface / real rows) 0"
    by (simp add: cellY_def surface_def rows_def cols_def)
  have h5: "0 = sqrt ((x (mousePosRef ?s) - 5) ^ 2 + (y (mousePosRef ?s) - 5) ^ 2)"
    by (simp add: handleMouseMove_fields surface_def)
  have h6: "(1::real) = max 0 (1 - 0 / 150)" by simp
  have h7: "0 = rippleActivation 5 5 (ripplesRef (animate (Some surface) ?s))"
    by (simp add: animate_Some_fields handleMouseMove_fields initial_fields
        updateRipples_Nil rippleActivation_def)
  have "activations ?s ! 0 = 0"
    by (simp add: handleMouseMove_fields initial_fields totalCells_pos)
  with tick_cell_update [OF h1 h2 h3 h4 h5 h6 h7] show ?thesis by simp
qed

subsection \<open>The ripple stimulus\<close>

lemma ringStep_spec:
  "0 \<le> acc \<Longrightarrow> ringStep cx cy r acc = max acc (spec_contribution cx cy r)"
  by (simp add: ringStep_def spec_contribution_def Let_def rippleWidth_def
      power2_commute [of cx] power2_commute [of cy])

lemma fold_ringStep_Max:
  "0 \<le> acc \<Longrightarrow>
     fold (ringStep cx cy) rs acc = Max (insert acc (spec_contribution cx cy ` set rs))"
proof (induction rs arbitrary: acc)
  case Nil
  show ?case by simp
next
  case (Cons r rs)
  let ?c = "spec_contribution cx cy r"
  let ?S = "spec_contribution cx cy ` set rs"
  have "fold (ringStep cx cy) (r # rs) acc = fold (ringStep cx cy) rs (max acc ?c)"
    using Cons.prems by (simp add: ringStep_spec)
  also have "\<dots> = Max (insert (max acc ?c) ?S)"
    using Cons.prems by (intro Cons.IH) simp
  also have "\<dots> = Max (insert acc (insert ?c ?S))"
  proof (cases "?S = {}")
    case True
    then show ?thesis by simp
  next
    case False
    then show ?thesis by (simp add: max.assoc)
  qed
  finally show ?case by simp
qed

lemma spec_contribution_nonneg: "0 \<le> opacity r \<Longrightarrow> 0 \<le> spec_contribution cx cy r"
  by (simp add: spec_contribution_def)

lemma updateRipples_positive: "\<forall>r \<in> set (updateRipples rs). 0 < opacity r"
  by (auto simp add: updateRipples_def stillActive_def)

lemma rippleActivation_Max:
  assumes "\<forall>r \<in> set rs. 0 \<le> opacity r"
  shows "rippleActivation cx cy rs =
           (if rs = [] then 0 else Max (spec_contribution cx cy ` set rs))"
proof (cases rs)
  case Nil
  then show ?thesis by (simp add: rippleActivation_def)
next
  case (Cons r0 rs')
  let ?S = "spec_contribution cx cy ` set rs"
  have fin: "finite ?S" by simp
  have mem: "spec_contribution cx cy r0 \<in> ?S" by (simp add: Cons)
  then have ne: "?S \<noteq> {}" by auto
  have "0 \<le> spec_contribution cx cy r0"
    using assms by (intro spec_contribution_nonneg) (simp add: Cons)
  also have "\<dots> \<le> Max ?S" using fin mem by (rule Max_ge)
  finally have "0 \<le> Max ?S" .
  moreover have "Max (insert 0 ?S) = max 0 (Max ?S)" using fin ne by (rule Max_insert)
  ultimately have "Max (insert 0 ?S) = Max ?S" by simp
  moreover have "rippleActivation cx cy rs = Max (insert 0 ?S)"
    unfolding rippleActivation_def by (rule fold_ringStep_Max) simp
  moreover have "rs \<noteq> []" by (simp add: Cons)
  ultimately show ?thesis by simp
qed

text \<open>
  Claim C3. The ripple stimulus of a cell is the greatest of the contributions of the
  active ripples (and 0 when there is none), a contribution being
  \<open>(1 - distanceFromRing / 60) * opacity\<close> within 60 pixels of the ring and 0 otherwise;
  overlapping ripples are not added up. An active ripple has a positive opacity
  (\<open>updateRipples\<close> keeps no other), which is all the statement asks of the list.
\<close>

theorem rippleActivation_is_maximum:
  assumes "\<forall>r \<in> set rs. 0 \<le> opacity r"
  shows "rippleActivation cx cy rs =
           (if rs = [] then 0 else Max (spec_contribution cx cy ` set rs))
         \<and> rippleActivation cx cy (updateRipples rs') =
           (if updateRipples rs' = [] then 0
            else Max (spec_contribution cx cy ` set (updateRipples rs')))"
proof -
  have "\<forall>r \<in> set (updateRipples rs'). 0 \<le> opacity r"
    using updateRipples_positive [of rs'] by (simp add: less_imp_le)
  then have "rippleActivation cx cy (updateRipples rs') =
           (if updateRipples rs' = [] then 0
            else Max (spec_contribution cx cy ` set (updateRipples rs')))"
    by (rule rippleActivation_Max)
  with rippleActivation_Max [OF assms, of cx cy] show ?thesis by (rule conjI)
qed

theorem rippleActivation_is_maximum_witness:
  "rippleActivation 0 0
     [\<lparr>x = 0, y = 0, radius = 30, maxRadius = 280, opacity = 0.5\<rparr>,
      \<lparr>x = 0, y = 0, radius = 15, maxRadius = 280, opacity = 0.8\<rparr>] = 0.6"
  using rippleActivation_is_maximum [of
     "[\<lparr>x = 0, y = 0, radius = 30, maxRadius = 280, opacity = 0.5\<rparr>,
       \<lparr>x = 0, y = 0, radius = 15, maxRadius = 280, opacity = 0.8\<rparr>]" 0 0,
     THEN conjunct1]
  by (simp add: spec_contribution_def)

subsection \<open>The life of a ripple\<close>

lemma updateRipples_append: "updateRipples (rs @ rs') = updateRipples rs @ updateRipples rs'"
  by (simp add: updateRipples_def)

lemma funpow_updateRipples_append:
  "(updateRipples ^^ k) (rs @ rs') = (updateRipples ^^ k) rs @ (updateRipples ^^ k) rs'"
  by (induction k) (simp_all add: updateRipples_append)

lemma funpow_updateRipples_Nil: "(updateRipples ^^ k) [] = []"
  by (induction k) (simp_all add: updateRipples_def)

lemma funpow_expandAndFade:
  "(expandAndFade ^^ k) r =
     r\<lparr>radius := radius r + 12 * real k, opacity := opacity r - 0.02 * real k\<rparr>"
  by (induction k)
    (simp_all add: expandAndFade_def rippleSpeed_def rippleFade_def algebra_simps)

lemma funpow_updateRipples_single:
  "(updateRipples ^^ k) [r] =
     (if \<forall>j \<in> {1..k}. stillActive ((expandAndFade ^^ j) r) then [(expandAndFade ^^ k) r] else [])"
proof (induction k)
  case 0
  show ?case by simp
next
  case (Suc k)
  have split: "(\<forall>j \<in> {1..Suc k}. P j) \<longleftrightarrow> (\<forall>j \<in> {1..k}. P j) \<and> P (Suc k)" for P
  proof -
    have "{1..Suc k} = insert (Suc k) {1..k}" by auto
    then show ?thesis by auto
  qed
  show ?case
    by (simp only: funpow.simps o_apply Suc.IH split)
      (simp add: updateRipples_def)
qed

lemma stillActive_fresh:
  "stillActive ((expandAndFade ^^ j) \<lparr>x = a, y = b, radius = 0, maxRadius = m, opacity = 1\<rparr>)
     \<longleftrightarrow> j < 50 \<and> 12 * real j < m"
  by (auto simp add: funpow_expandAndFade stillActive_def)

lemma fresh_alive_iff:
  "(\<forall>j \<in> {1..k}. j < 50 \<and> 12 * real j < m) \<longleftrightarrow> k = 0 \<or> (k < 50 \<and> 12 * real k < m)"
proof (cases "k = 0")
  case True
  then show ?thesis by simp
next
  case False
  have "j < 50 \<and> 12 * real j < m" if "k < 50" "12 * real k < m" "j \<le> k" for j
  proof -
    from that(3) have "12 * real j \<le> 12 * real k" by simp
    with that show ?thesis by simp
  qed
  with False show ?thesis by auto
qed

lemma funpow_updateRipples_fresh:
  "(updateRipples ^^ k) [\<lparr>x = a, y = b, radius = 0, maxRadius = m, opacity = 1\<rparr>] =
     (if k = 0 \<or> (k < 50 \<and> 12 * real k < m)
      then [\<lparr>x = a, y = b, radius = 12 * real k, maxRadius = m, opacity = 1 - 0.02 * real k\<rparr>]
      else [])"
  by (simp only: funpow_updateRipples_single stillActive_fresh fresh_alive_iff)
    (simp add: funpow_expandAndFade)

lemma ripplesRef_frames: "ripplesRef (frames rects k s) = (updateRipples ^^ k) (ripplesRef s)"
  by (induction k) (simp_all add: animate_def Let_def)

lemma set_updateRipples:
  "r' \<in> set (updateRipples rs) \<longleftrightarrow>
     (\<exists>r \<in> set rs. r' = expandAndFade r \<and> \<not> (opacity r' \<le> 0 \<or> maxRadius r' \<le> radius r'))"
  by (auto simp add: updateRipples_def stillActive_def)

text \<open>
  Claim C4. A click at client position \<open>e\<close> on a container \<open>rect\<close> appends exactly one ripple,
  at the container-local position, with radius 0, opacity 1 and \<open>maxRadius\<close> the larger of the
  container's width and height. After \<open>k\<close> frames that ripple, if still there, has radius
  \<open>12 * k\<close> and opacity \<open>1 - 0.02 * k\<close>; it is there exactly as long as neither the opacity
  has come down to 0 nor the radius has reached \<open>maxRadius\<close>, and from the first frame at
  which one of the two happens it is gone for good. In one frame, a ripple is dropped
  exactly when its new opacity is at most 0 or its new radius is at least \<open>maxRadius\<close>.
\<close>

theorem click_ripple_lifecycle:
  "handleClick (Some rect) e s =
     s\<lparr>ripplesRef := ripplesRef s @
         [\<lparr>x = clientX e - rect_left rect, y = clientY e - rect_top rect, radius = 0,
           maxRadius = max (rect_width rect) (rect_height rect), opacity = 1\<rparr>]\<rparr>
   \<and> ripplesRef (frames rects k (handleClick (Some rect) e s)) =
       (updateRipples ^^ k) (ripplesRef s) @
       (if k = 0 \<or> (k < 50 \<and> 12 * real k < max (rect_width rect) (rect_height rect))
        then [\<lparr>x = clientX e - rect_left rect, y = clientY e - rect_top rect,
               radius = 12 * real k, maxRadius = max (rect_width rect) (rect_height rect),
               opacity = 1 - 0.02 * real k\<rparr>]
        else [])
   \<and> (r' \<in> set (updateRipples rs) \<longleftrightarrow>
        (\<exists>r \<in> set rs. r' = expandAndFade r
           \<and> \<not> (opacity r' \<le> 0 \<or> maxRadius r' \<le> radius r')))"
proof -
  let ?new = "\<lparr>x = clientX e - rect_left rect, y = clientY e - rect_top rect, radius = 0,
           maxRadius = max (rect_width rect) (rect_height rect), opacity = 1\<rparr>"
  have 1: "handleClick (Some rect) e s = s\<lparr>ripplesRef := ripplesRef s @ [?new]\<rparr>"
    by (simp add: handleClick_def)
  have "ripplesRef (frames rects k (handleClick (Some rect) e s)) =
          (updateRipples ^^ k) (ripplesRef s) @ (updateRipples ^^ k) [?new]"
    unfolding 1 ripplesRef_frames by (simp add: funpow_updateRipples_append)
  then have 2: "ripplesRef (frames rects k (handleClick (Some rect) e s)) =
       (updateRipples ^^ k) (ripplesRef s) @
       (if k = 0 \<or> (k < 50 \<and> 12 * real k < max (rect_width rect) (rect_height rect))
        then [\<lparr>x = clientX e - rect_left rect, y = clientY e - rect_top rect,
               radius = 12 * real k, maxRadius = max (rect_width rect) (rect_height rect),
               opacity = 1 - 0.02 * real k\<rparr>]
        else [])"
    by (simp only: funpow_updateRipples_fresh)
  from 1 2 set_updateRipples [of r' rs] show ?thesis by blast
qed

theorem click_ripple_lifecycle_witness:
  "ripplesRef (frames (\<lambda>n. surface) 5
      (handleClick (Some surface) \<lparr>clientX = 140, clientY = 90\<rparr> initial)) =
     [\<lparr>x = 140, y = 90, radius = 60, maxRadius = 280, opacity = 0.9\<rparr>]"
proof -
  have "(updateRipples ^^ 5) (ripplesRef initial) = []"
    by (simp add: initial_fields funpow_updateRipples_Nil)
  with click_ripple_lifecycle [of surface "\<lparr>clientX = 140, clientY = 90\<rparr>" initial
      "\<lambda>n. surface" 5, THEN conjunct2, THEN conjunct1]
  show ?thesis by (simp add: surface_def)
qed

lemma agedRipple_fresh: "agedRipple \<lparr>x = a, y = b, radius = 0, maxRadius = m, opacity = 1\<rparr>"
  unfolding agedRipple_def by (rule exI [of _ 0]) simp

lemma agedRipple_step:
  assumes "agedRipple r" and "stillActive (expandAndFade r)"
  shows "agedRipple (expandAndFade r)"
proof -
  from assms(1) obtain j where j: "radius r = 12 * real j" "opacity r = 1 - 0.02 * real j"
    by (auto simp add: agedRipple_def)
  from assms(2) have "0 < 1 - 0.02 * real (Suc j)"
    by (simp add: stillActive_def expandAndFade_def rippleFade_def j(2) ring_distribs)
  then have "Suc j < 50" by simp
  moreover have "radius (expandAndFade r) = 12 * real (Suc j)"
    using j(1) by (simp add: expandAndFade_def rippleSpeed_def algebra_simps)
  moreover have "opacity (expandAndFade r) = 1 - 0.02 * real (Suc j)"
    by (simp add: expandAndFade_def rippleFade_def j(2) ring_distribs)
  ultimately show ?thesis unfolding agedRipple_def by blast
qed

lemma agedRipple_updateRipples:
  "\<forall>r \<in> set rs. agedRipple r \<Longrightarrow> \<forall>r \<in> set (updateRipples rs). agedRipple r"
  by (auto simp add: updateRipples_def agedRipple_step)

lemma reachable_aged: "reachable s \<Longrightarrow> \<forall>r \<in> set (ripplesRef s). agedRipple r"
proof (induction rule: reachable.induct)
  case start
  show ?case by (simp add: initial_fields)
next
  case (move s container e)
  then show ?case by (simp add: handleMouseMove_fields)
next
  case (click s container e)
  then show ?case
    by (cases container) (auto simp add: handleClick_def agedRipple_fresh)
next
  case (frame s container)
  then show ?case
    by (cases container) (simp_all add: animate_def Let_def agedRipple_updateRipples)
qed

text \<open>
  Claim C10. No ripple outlives 50 frames, whatever its \<open>maxRadius\<close>: 50 or more frames
  after a click the list of ripples is what it would be without the click, and in every
  state of a run each ripple in the list has been advanced fewer than 50 times.
\<close>

theorem ripple_gone_after_50_steps:
  assumes "reachable s" and "50 \<le> k"
  shows "ripplesRef (frames rects k (handleClick container e s)) = ripplesRef (frames rects k s)
         \<and> (\<forall>r \<in> set (ripplesRef s).
               \<exists>j < 50. radius r = 12 * real j \<and> opacity r = 1 - 0.02 * real j)"
proof -
  have "ripplesRef (frames rects k (handleClick container e s)) = ripplesRef (frames rects k s)"
  proof (cases container)
    case None
    then show ?thesis by (simp add: handleClick_def)
  next
    case (Some rect)
    have "(updateRipples ^^ k)
            [\<lparr>x = clientX e - rect_left rect, y = clientY e - rect_top rect, radius = 0,
              maxRadius = max (rect_width rect) (rect_height rect), opacity = 1\<rparr>] = []"
      using assms(2) by (simp only: funpow_updateRipples_fresh) simp
    then show ?thesis
      by (simp add: Some handleClick_def ripplesRef_frames funpow_updateRipples_append)
  qed
  moreover from reachable_aged [OF assms(1)]
  have "\<forall>r \<in> set (ripplesRef s).
          \<exists>j < 50. radius r = 12 * real j \<and> opacity r = 1 - 0.02 * real j"
    by (simp add: agedRipple_def)
  ultimately show ?thesis by simp
qed

theorem ripple_gone_after_50_steps_witness:
  "ripplesRef (frames (\<lambda>n. wide) 50
      (handleClick (Some wide) \<lparr>clientX = 960, clientY = 540\<rparr> initial)) = []"
proof -
  have "ripplesRef (frames (\<lambda>n. wide) 50 initial) = []"
    by (simp add: ripplesRef_frames initial_fields funpow_updateRipples_Nil)
  with ripple_gone_after_50_steps [OF reachable.start, of 50 "\<lambda>n. wide" "Some wide"
      "\<lparr>clientX = 960, clientY = 540\<rparr>"]
  show ?thesis by simp
qed

subsection \<open>Decay without stimulus\<close>

lemma mouseActivation_zero_iff:
  "mouseActivation mx my cx cy = 0 \<longleftrightarrow> 150 \<le> sqrt ((mx - cx) ^ 2 + (my - cy) ^ 2)"
  by (auto simp add: mouseActivation_def Let_def maxDistance_def max_def)

lemma sentinel_far:
  assumes "0 \<le> cx"
  shows "mouseActivation (- 1000) (- 1000) cx cy = 0"
proof -
  have "(150::real) ^ 2 \<le> (1000 + cx) ^ 2"
    using assms by (intro power_mono) simp_all
  also have "\<dots> = (- 1000 - cx) ^ 2" by (simp add: power2_eq_square algebra_simps)
  also have "\<dots> \<le> (- 1000 - cx) ^ 2 + (- 1000 - cy) ^ 2" by simp
  finally have "150 \<le> sqrt ((- 1000 - cx) ^ 2 + (- 1000 - cy) ^ 2)"
    by (rule real_le_rsqrt)
  then show ?thesis by (simp only: mouseActivation_zero_iff)
qed

lemma animate_quiet_nth:
  assumes "length (activations s) = totalCells" and "i < totalCells"
    and "mousePosRef s = \<lparr>x = - 1000, y = - 1000\<rparr>" and "ripplesRef s = []"
    and "0 \<le> rect_width rect" and "0 \<le> activations s ! i"
  shows "activations (animate (Some rect) s) ! i = activations s ! i * decay"
proof -
  have "0 \<le> cellX (rect_width rect / real cols) i"
    using assms(5) by (intro cellX_nonneg) simp
  then have "mouseActivation (- 1000) (- 1000) (cellX (rect_width rect / real cols) i)
      (cellY (rect_height rect / real rows) i) = 0"
    by (rule sentinel_far)
  moreover have "0 \<le> activations s ! i * decay"
    using assms(6) by (simp add: decay_def)
  ultimately show ?thesis
    by (simp add: animate_Some_nth [OF assms(2,1)] assms(3,4) cellActivation_def
        updateRipples_Nil rippleActivation_Nil)
qed
















subsection \<open>A pointer outside the container\<close>

lemma sqrt_100: "sqrt 100 = 10"
  using real_sqrt_abs [of 10] by simp

lemma sqrt_625: "sqrt 625 = 25"
  using real_sqrt_abs [of 25] by simp

text \<open>
  Claim C5, as stated, fails: a pointer 5 pixels above the top edge of the container is
  recorded at \<open>(5, -5)\<close>, not at the initial far-away position, and the next frame gives
  the first cell, whose centre is 10 pixels away, the stimulus \<open>1 - 10 / 150\<close>.
\<close>

theorem pointer_outside_counterexample:
  "clientY \<lparr>clientX = 5, clientY = - 5\<rparr> - rect_top surface < 0
   \<and> mousePosRef (handleMouseMove (Some surface) \<lparr>clientX = 5, clientY = - 5\<rparr> initial)
       = \<lparr>x = 5, y = - 5\<rparr>
   \<and> mousePosRef (handleMouseMove (Some surface) \<lparr>clientX = 5, clientY = - 5\<rparr> initial)
       \<noteq> mousePosRef initial
   \<and> activations (animate (Some surface)
         (handleMouseMove (Some surface) \<lparr>clientX = 5, clientY = - 5\<rparr> initial)) ! 0
       = 14 / 15"
proof -
  let ?s = "handleMouseMove (Some surface) \<lparr>clientX = 5, clientY = - 5\<rparr> initial"
  have pos: "mousePosRef ?s = \<lparr>x = 5, y = - 5\<rparr>"
    by (simp add: handleMouseMove_fields surface_def)
  have "length (activations ?s) = totalCells"
    by (simp add: handleMouseMove_fields initial_fields)
  from animate_Some_nth [OF totalCells_pos this, of surface]
  have "activations (animate (Some surface) ?s) ! 0 = 14 / 15"
    by (simp add: cellActivation_def handleMouseMove_fields initial_fields totalCells_pos
        updateRipples_Nil rippleActivation_Nil mouseActivation_def maxDistance_def
        cellX_def cellY_def surface_def cols_def rows_def sqrt_100)
  with pos show ?thesis by (simp add: initial_fields surface_def)
qed

text \<open>
  Claim C5, amended. A pointer move records the container-local position
  \<open>(clientX - left, clientY - top)\<close> unchanged, also when it is negative or beyond the
  container: the far-away position is recorded only if the local position itself is
  \<open>(-1000, -1000)\<close>. On the following frame every cell \<open>i\<close> gets the maximum of its decayed
  value, the pointer stimulus \<open>max 0 (1 - d / 150)\<close>, with \<open>d\<close> the distance from the cell's
  centre to the recorded position, and the ripple stimulus; that pointer stimulus is 0
  exactly when \<open>d\<close> is at least 150. In a frame that finds the far-away position recorded
  and a container of non-negative width, the pointer stimulus of every cell is 0.
\<close>

theorem pointer_recorded_as_is:
  assumes "i < totalCells" and "length (activations s) = totalCells"
    and "cx = cellX (rect_width r / real cols) i"
    and "cy = cellY (rect_height r / real rows) i"
    and "d = sqrt ((clientX e - rect_left rect - cx) ^ 2 + (clientY e - rect_top rect - cy) ^ 2)"
  shows "mousePosRef (handleMouseMove (Some rect) e s) =
           \<lparr>x = clientX e - rect_left rect, y = clientY e - rect_top rect\<rparr>
         \<and> (mousePosRef (handleMouseMove (Some rect) e s) = mousePosRef initial
              \<longleftrightarrow> clientX e - rect_left rect = - 1000 \<and> clientY e - rect_top rect = - 1000)
         \<and> activations (animate (Some r) (handleMouseMove (Some rect) e s)) ! i =
             max (activations s ! i * 0.92)
               (max (max 0 (1 - d / 150))
                    (rippleActivation cx cy (updateRipples (ripplesRef s))))
         \<and> (max 0 (1 - d / 150) = 0 \<longleftrightarrow> 150 \<le> d)
         \<and> (mousePosRef s = mousePosRef initial \<and> 0 \<le> rect_width r \<longrightarrow>
              activations (animate (Some r) s) ! i =
                max (activations s ! i * 0.92)
                  (max 0 (rippleActivation cx cy (updateRipples (ripplesRef s)))))"
proof -
  let ?s' = "handleMouseMove (Some rect) e s"
  have rec: "mousePosRef ?s' = \<lparr>x = clientX e - rect_left rect, y = clientY e - rect_top rect\<rparr>"
    by (simp add: handleMouseMove_fields)
  have sentinel: "mousePosRef ?s' = mousePosRef initial
      \<longleftrightarrow> clientX e - rect_left rect = - 1000 \<and> clientY e - rect_top rect = - 1000"
    by (simp add: handleMouseMove_fields initial_fields)
  have len: "length (activations ?s') = totalCells"
    using assms(2) by (simp add: handleMouseMove_fields)
  have tick: "activations (animate (Some r) ?s') ! i =
             max (activations s ! i * 0.92)
               (max (max 0 (1 - d / 150))
                    (rippleActivation cx cy (updateRipples (ripplesRef s))))"
    by (simp add: animate_Some_nth [OF assms(1) len] cellActivation_def mouseActivation_def
        Let_def handleMouseMove_fields assms(3,4,5) decay_def maxDistance_def)
  have zero: "max 0 (1 - d / 150) = 0 \<longleftrightarrow> 150 \<le> d"
    by (auto simp add: max_def)
  have far: "activations (animate (Some r) s) ! i =
                max (activations s ! i * 0.92)
                  (max 0 (rippleActivation cx cy (updateRipples (ripplesRef s))))"
    if "mousePosRef s = mousePosRef initial" and "0 \<le> rect_width r"
  proof -
    from that(2) have "0 \<le> cx" unfolding assms(3) by (intro cellX_nonneg) simp
    then have "mouseActivation (- 1000) (- 1000) cx cy = 0" by (rule sentinel_far)
    then show ?thesis
      by (simp add: animate_Some_nth [OF assms(1,2)] cellActivation_def that(1)
          initial_fields assms(3,4) [symmetric] decay_def)
  qed
  from rec sentinel tick zero far show ?thesis by blast
qed

theorem pointer_recorded_as_is_witness:
  "mousePosRef (handleMouseMove (Some surface) \<lparr>clientX = 300, clientY = 5\<rparr> initial) =
     \<lparr>x = 300, y = 5\<rparr>
   \<and> activations (animate (Some surface)
         (handleMouseMove (Some surface) \<lparr>clientX = 300, clientY = 5\<rparr> initial)) ! 27 = 5 / 6
   \<and> activations (animate (Some surface) initial) ! 27 = 0"
proof -
  have h1: "27 < totalCells" by (simp add: totalCells_def cols_def rows_def)
  have h2: "length (activations initial) = totalCells" by (simp add: initial_fields)
  have h3: "275 = cellX (rect_width surface / real cols) 27"
    by (simp add: cellX_def surface_def cols_def)
  have h4: "5 = cellY (rect_height surface / real rows) 27"
    by (simp add: cellY_def surface_def cols_def rows_def)
  have h5: "25 = sqrt ((clientX \<lparr>clientX = 300, clientY = 5\<rparr> - rect_left surface - 275) ^ 2
                  + (clientY \<lparr>clientX = 300, clientY = 5\<rparr> - rect_top surface - 5) ^ 2)"
    by (simp add: surface_def sqrt_625)
  have "0 \<le> rect_width surface" by (simp add: surface_def)
  with pointer_recorded_as_is [OF h1 h2 h3 h4 h5] h1
  show ?thesis
    by (simp add: initial_fields updateRipples_Nil rippleActivation_Nil surface_def)
qed

subsection \<open>A container without extent\<close>

lemma sqrt_5625: "sqrt 5625 = 75"
  using real_sqrt_abs [of 75] by simp

lemma cellX_checked: "cellX_checked cw i = Some (cellX cw i)"
  by (simp add: cellX_checked_def divide_checked_def cellX_def)

lemma cellY_checked: "cellY_checked ch i = Some (cellY ch i)"
  by (simp add: cellY_checked_def divide_checked_def cellY_def cols_def
      floor_divide_of_nat_eq [of i 28, simplified])

lemma mouseActivation_checked:
  "mouseActivation_checked mx my cx cy = Some (mouseActivation mx my cx cy)"
  by (simp add: mouseActivation_checked_def divide_checked_def mouseActivation_def
      maxDistance_def Let_def)

lemma ringStep_checked: "ringStep_checked cx cy r acc = Some (ringStep cx cy r acc)"
  by (simp add: ringStep_checked_def divide_checked_def ringStep_def rippleWidth_def Let_def)

lemma fold_ringStep_checked:
  "fold (\<lambda>ripple acc. Option.bind acc (ringStep_checked cx cy ripple)) rs (Some a) =
     Some (fold (ringStep cx cy) rs a)"
  by (induction rs arbitrary: a) (simp_all add: ringStep_checked)

lemma rippleActivation_checked:
  "rippleActivation_checked cx cy rs = Some (rippleActivation cx cy rs)"
  by (simp add: rippleActivation_checked_def rippleActivation_def fold_ringStep_checked)

lemma cellActivation_checked:
  "cellActivation_checked cw ch mx my rs prev i = Some (cellActivation cw ch mx my rs prev i)"
  by (simp add: cellActivation_checked_def cellActivation_def cellX_checked cellY_checked
      mouseActivation_checked rippleActivation_checked)

lemma fold_update_checked:
  "fold (\<lambda>i acc. Option.bind acc (\<lambda>nxt. Some (nxt[i := f i]))) js (Some xs) =
     Some (fold (\<lambda>i nxt. nxt[i := f i]) js xs)"
  by (induction js arbitrary: xs) simp_all

lemma updateActivations_checked:
  "updateActivations_checked cw ch mx my rs prev = Some (updateActivations cw ch mx my rs prev)"
  by (simp add: updateActivations_checked_def updateActivations_def cellActivation_checked
      fold_update_checked)

lemma animate_checked: "animate_checked container s = Some (animate container s)"
  by (cases container)
    (simp_all add: animate_checked_def animate_def divide_checked_def cols_def rows_def
      updateActivations_checked Let_def)

text \<open>
  Claim C6, as stated, fails: with a container of width and height 0 the frame is not
  skipped. With the pointer at the container's corner it raises the first cell from 0 to
  1, and with the pointer far away again the next such frame decays that 1 to 0.92.
\<close>

theorem collapsed_surface_counterexample:
  "rect_width collapsed = 0 \<and> rect_height collapsed = 0
   \<and> activations (handleMouseMove (Some collapsed) \<lparr>clientX = 0, clientY = 0\<rparr> initial) ! 0 = 0
   \<and> activations (animate (Some collapsed)
         (handleMouseMove (Some collapsed) \<lparr>clientX = 0, clientY = 0\<rparr> initial)) ! 0 = 1
   \<and> activations (animate (Some collapsed)
         (handleMouseMove (Some collapsed) \<lparr>clientX = - 1000, clientY = - 1000\<rparr>
           (animate (Some collapsed)
             (handleMouseMove (Some collapsed) \<lparr>clientX = 0, clientY = 0\<rparr> initial)))) ! 0
       = 0.92"
proof -
  let ?s = "handleMouseMove (Some collapsed) \<lparr>clientX = 0, clientY = 0\<rparr> initial"
  let ?t = "handleMouseMove (Some collapsed) \<lparr>clientX = - 1000, clientY = - 1000\<rparr>
              (animate (Some collapsed) ?s)"
  have zero: "activations ?s ! 0 = 0"
    by (simp add: handleMouseMove_fields initial_fields totalCells_pos)
  have len: "length (activations ?s) = totalCells"
    by (simp add: handleMouseMove_fields initial_fields)
  from animate_Some_nth [OF totalCells_pos len, of collapsed]
  have one: "activations (animate (Some collapsed) ?s) ! 0 = 1"
    by (simp add: cellActivation_def handleMouseMove_fields initial_fields totalCells_pos
        updateRipples_Nil rippleActivation_Nil mouseActivation_def maxDistance_def
        cellX_def cellY_def collapsed_def)
  have "length (activations ?t) = totalCells"
    by (simp add: handleMouseMove_fields animate_Some_fields initial_fields)
  moreover have "mousePosRef ?t = \<lparr>x = - 1000, y = - 1000\<rparr>"
    by (simp add: handleMouseMove_fields collapsed_def)
  moreover have "ripplesRef ?t = []"
    by (simp add: handleMouseMove_fields animate_Some_fields initial_fields updateRipples_Nil)
  moreover have "0 \<le> rect_width collapsed" by (simp add: collapsed_def)
  moreover have "0 \<le> activations ?t ! 0" by (simp add: handleMouseMove_fields one)
  ultimately have "activations (animate (Some collapsed) ?t) ! 0 = activations ?t ! 0 * decay"
    using totalCells_pos by (intro animate_quiet_nth)
  then have "activations (animate (Some collapsed) ?t) ! 0 = 0.92"
    by (simp add: handleMouseMove_fields one decay_def)
  with zero one show ?thesis by (simp add: collapsed_def)
qed

text \<open>
  Claim C6, amended. A frame leaves ripples and activations as they are when the container
  element is absent. With a container present the frame runs in full, also when its width
  or height is 0: the ripples are advanced and every cell gets the maximum of its decayed
  value, the pointer stimulus and the ripple stimulus, computed for a cell centre whose
  coordinate on an axis of extent 0 is 0. No division of the frame has a zero divisor,
  whatever the container's size: with every division checked the frame still returns,
  and returns the same state.
\<close>

theorem collapsed_surface_tick:
  assumes "i < totalCells" and "length (activations s) = totalCells"
    and "cx = cellX (rect_width rect / real cols) i"
    and "cy = cellY (rect_height rect / real rows) i"
  shows "animate None s = s
         \<and> ripplesRef (animate (Some rect) s) = updateRipples (ripplesRef s)
         \<and> activations (animate (Some rect) s) ! i =
             max (activations s ! i * 0.92)
               (max (max 0 (1 - sqrt ((x (mousePosRef s) - cx) ^ 2
                                       + (y (mousePosRef s) - cy) ^ 2) / 150))
                    (rippleActivation cx cy (updateRipples (ripplesRef s))))
         \<and> (rect_width rect = 0 \<longrightarrow> cx = 0) \<and> (rect_height rect = 0 \<longrightarrow> cy = 0)
         \<and> animate_checked (Some rect) s = Some (animate (Some rect) s)"
proof -
  have "animate None s = s" by (simp add: animate_def)
  moreover have "activations (animate (Some rect) s) ! i =
             max (activations s ! i * 0.92)
               (max (max 0 (1 - sqrt ((x (mousePosRef s) - cx) ^ 2
                                       + (y (mousePosRef s) - cy) ^ 2) / 150))
                    (rippleActivation cx cy (updateRipples (ripplesRef s))))"
    by (simp add: animate_Some_nth [OF assms(1,2)] cellActivation_def mouseActivation_def
        Let_def assms(3,4) decay_def maxDistance_def)
  moreover have "rect_width rect = 0 \<longrightarrow> cx = 0" by (simp add: assms(3) cellX_zero)
  moreover have "rect_height rect = 0 \<longrightarrow> cy = 0" by (simp add: assms(4) cellY_zero)
  moreover have "animate_checked (Some rect) s = Some (animate (Some rect) s)"
    by (rule animate_checked)
  ultimately show ?thesis by (simp add: animate_Some_fields)
qed

theorem collapsed_surface_tick_witness:
  "activations (handleMouseMove (Some collapsed) \<lparr>clientX = 0, clientY = 75\<rparr> initial) ! 7 = 0
   \<and> activations (animate (Some collapsed)
         (handleMouseMove (Some collapsed) \<lparr>clientX = 0, clientY = 75\<rparr> initial)) ! 7 = 1 / 2
   \<and> animate_checked (Some collapsed)
         (handleMouseMove (Some collapsed) \<lparr>clientX = 0, clientY = 75\<rparr> initial) =
       Some (animate (Some collapsed)
         (handleMouseMove (Some collapsed) \<lparr>clientX = 0, clientY = 75\<rparr> initial))"
proof -
  let ?s = "handleMouseMove (Some collapsed) \<lparr>clientX = 0, clientY = 75\<rparr> initial"
  have h1: "7 < totalCells" by (simp add: totalCells_def cols_def rows_def)
  have h2: "length (activations ?s) = totalCells"
    by (simp add: handleMouseMove_fields initial_fields)
  have h3: "0 = cellX (rect_width collapsed / real cols) 7"
    by (simp add: collapsed_def cellX_zero)
  have h4: "0 = cellY (rect_height collapsed / real rows) 7"
    by (simp add: collapsed_def cellY_zero)
  from collapsed_surface_tick [OF h1 h2 h3 h4] h1
  show ?thesis
    by (simp add: handleMouseMove_fields initial_fields updateRipples_Nil rippleActivation_Nil
        collapsed_def sqrt_5625)
qed

subsection \<open>The presentation of a cell\<close>

lemma length_chars: "length chars = 5"
  by (simp add: chars_def)

text \<open>
  Claim C8. For an activation value \<open>a\<close>, \<^verbatim>\<open>getCharAndStyle\<close> picks the symbol at index
  \<open>floor (a * (N - 1))\<close>, raised to 0 when negative, of the N-symbol palette, and returns
  the opacity \<open>0.12 + a * 0.88\<close> and the scale \<open>1 + a * 0.8\<close>. (An index beyond the palette
  reads \<^verbatim>\<open>undefined\<close>, here \<open>None\<close>.)
\<close>

theorem getCharAndStyle_mapping:
  assumes "index < length acts" and "a = acts ! index"
  shows "char (getCharAndStyle acts index) =
           (if max 0 \<lfloor>a * (real (length chars) - 1)\<rfloor> < int (length chars)
            then Some (chars ! nat (max 0 \<lfloor>a * (real (length chars) - 1)\<rfloor>)) else None)
         \<and> opacity' (getCharAndStyle acts index) = 0.12 + a * 0.88
         \<and> scale (getCharAndStyle acts index) = 1 + a * 0.8"
proof -
  have "nat (max 0 k) < n \<longleftrightarrow> max 0 k < int n" for k :: int and n :: nat
    by (cases "0 \<le> k") (auto simp add: max_def)
  with assms show ?thesis
    by (simp add: getCharAndStyle_def Let_def)
qed

theorem getCharAndStyle_mapping_witness:
  "char (getCharAndStyle [0.5] 0) = Some 0x25CB
   \<and> opacity' (getCharAndStyle [0.5] 0) = 0.56
   \<and> scale (getCharAndStyle [0.5] 0) = 1.4"
  using getCharAndStyle_mapping [of 0 "[0.5]" "0.5"]
  by (simp add: length_chars) (simp add: chars_def)

text \<open>
  Claim C9. For an activation in \<open>[0,1]\<close> the index \<open>floor (a * (N - 1))\<close> lies between 0
  and \<open>N - 1\<close>, so the palette is read in bounds although the code only guards the lower
  end.
\<close>

theorem charIndex_in_bounds:
  assumes "index < length acts" and "0 \<le> acts ! index" and "acts ! index \<le> 1"
  shows "0 \<le> \<lfloor>acts ! index * (real (length chars) - 1)\<rfloor>
         \<and> \<lfloor>acts ! index * (real (length chars) - 1)\<rfloor> \<le> int (length chars) - 1
         \<and> nat (max 0 \<lfloor>acts ! index * (real (length chars) - 1)\<rfloor>) < length chars
         \<and> char (getCharAndStyle acts index) =
             Some (chars ! nat \<lfloor>acts ! index * (real (length chars) - 1)\<rfloor>)"
proof -
  let ?a = "acts ! index"
  let ?k = "\<lfloor>?a * (real (length chars) - 1)\<rfloor>"
  have lo: "0 \<le> ?k" using assms(2) by (simp add: length_chars)
  have "?a * (real (length chars) - 1) \<le> 4" using assms(3) by (simp add: length_chars)
  then have "?k \<le> 4" by linarith
  then have hi: "?k \<le> int (length chars) - 1" by (simp add: length_chars)
  from lo \<open>?k \<le> 4\<close> have "nat (max 0 ?k) < 5" by linarith
  then have inb: "nat (max 0 ?k) < length chars" by (simp only: length_chars)
  from lo have "max 0 ?k = ?k" by simp
  with inb have "char (getCharAndStyle acts index) = Some (chars ! nat ?k)"
    by (simp add: getCharAndStyle_def Let_def)
  with lo hi inb show ?thesis by simp
qed

theorem charIndex_in_bounds_witness:
  "\<lfloor>([1] :: real list) ! 0 * (real (length chars) - 1)\<rfloor> = 4
   \<and> char (getCharAndStyle [1] 0) = Some 0x25CF"
  using charIndex_in_bounds [of 0 "[1]"]
  by (simp add: length_chars) (simp add: chars_def)

end
